theory Spec2Isabelle
  imports Main "HOL-Library.Sublist"
begin

section \<open>Exceptions\<close>

text \<open>
  The module \<^verbatim>\<open>foremast/utils/gcp_environment.py\<close> raises two exception classes of its
  own choosing: the built-in \<^verbatim>\<open>KeyError\<close> (in \<^verbatim>\<open>GcpResource.validate\<close>) and
  \<^verbatim>\<open>GoogleInfrastructureError\<close> (imported from \<^verbatim>\<open>..exceptions\<close>; in both lookup
  methods). The interpreter raises \<^verbatim>\<open>TypeError\<close> when a keyword argument is bound
  twice, and the Google client libraries raise exceptions of their own, which the module
  never catches. Each constructor carries the message of the exception.
\<close>

datatype error =
    KeyError string
  | TypeError string
  | GoogleInfrastructureError string
  | LibraryError string

section \<open>\<^verbatim>\<open>GcpResource\<close>\<close>

text \<open>
  \<^verbatim>\<open>GcpResource.__init__\<close> sets \<^verbatim>\<open>self.project = None\<close> and then copies its keyword
  arguments into the attribute dictionary. Python's \<^verbatim>\<open>None\<close> is \<open>None\<close>; any other
  value of the attribute is \<open>Some v\<close>. The remaining attributes are kept in
  \<open>attributes\<close>.
\<close>

record 'v GcpResource =
  project :: "'v option"
  attributes :: "string \<rightharpoonup> 'v"

text \<open>
  \<^verbatim>\<open>validate\<close> returns nothing and assigns nothing. The model returns the outcome
  together with the resource as it is after the call.
\<close>

definition validate :: "'v GcpResource \<Rightarrow> (error + unit) \<times> 'v GcpResource" where
  "validate self =
     (if project self = None
      then (Inl (KeyError ''A project must be specified when creating or referencing a GCP Resource''), self)
      else (Inr (), self))"

section \<open>Data returned by the Cloud Resource Manager\<close>

text \<open>
  A project record of the remote service: the code reads \<^verbatim>\<open>project['name']\<close> only; the
  labels are what the remote filter is evaluated on.
\<close>

record project =
  name :: string
  labels :: "string \<rightharpoonup> string"

text \<open>
  The response of \<^verbatim>\<open>projects().list(filter=...).execute()\<close> is a dictionary. The code
  reads it with \<^verbatim>\<open>response.get('projects', [])\<close>, so a response may lack the key.
\<close>

type_synonym response = "string \<rightharpoonup> project list"

definition dict_get :: "('k \<rightharpoonup> 'a) \<Rightarrow> 'k \<Rightarrow> 'a \<Rightarrow> 'a" where
  "dict_get d k dflt = (case d k of None \<Rightarrow> dflt | Some v \<Rightarrow> v)"

section \<open>\<^verbatim>\<open>GcpEnvironment\<close>\<close>

text \<open>
  The attributes that \<^verbatim>\<open>GcpEnvironment.__init__\<close> declares, at the types the methods
  use them at. \<open>'v\<close> is the type of a configuration value. \<open>extra\<close> holds the
  attributes that are not declared by the class.
\<close>

record 'v GcpEnvironment =
  name :: string
  organization :: "'v option"
  all_projects_cache :: "project list"
  single_project_cache :: "string \<rightharpoonup> project"
  service_account_project :: "'v option"
  service_account_path :: "'v option"
  extra :: "string \<rightharpoonup> 'v"

text \<open>
  The collaborators: \<^verbatim>\<open>service_account.Credentials.from_service_account_file\<close>, given
  the file name and the scopes, and the remote query
  \<^verbatim>\<open>discovery.build('cloudresourcemanager', 'v1', credentials=c).projects().list(filter=f).execute()\<close>,
  given the number of queries sent before it (so that the remote service may answer the same
  filter differently from one query to the next), the credentials and the filter. Either may
  raise.
\<close>

record ('c, 'v) gcp =
  from_service_account_file :: "'v option \<Rightarrow> string list \<Rightarrow> error + 'c"
  projects_list_execute :: "nat \<Rightarrow> 'c \<Rightarrow> string \<Rightarrow> error + response"

definition get_credentials :: "('c, 'v) gcp \<Rightarrow> 'v GcpEnvironment \<Rightarrow> error + 'c" where
  "get_credentials api self =
     from_service_account_file api (service_account_path self)
       [''https://www.googleapis.com/auth/cloud-platform'']"

text \<open>\<^verbatim>\<open>_get_project_api_filter(self, name=None)\<close>.\<close>

definition get_project_api_filter :: "'v GcpEnvironment \<Rightarrow> string option \<Rightarrow> string" where
  "get_project_api_filter self name' =
     (let base_filter = ''labels.cloud_env:'' @ GcpEnvironment.name self
      in case name' of
           None \<Rightarrow> base_filter
         | Some n \<Rightarrow> base_filter @ '' name:'' @ n @ ''*'')"

text \<open>
  The methods take the environment and the list of the filters of all remote queries sent so
  far, oldest first, and return the outcome, the environment and the list as they are after
  the call. A query is recorded when it is sent, whatever its result.
\<close>

definition get_all_projects ::
  "('c, 'v) gcp \<Rightarrow> 'v GcpEnvironment \<Rightarrow> string list
     \<Rightarrow> (error + project list) \<times> 'v GcpEnvironment \<times> string list" where
  "get_all_projects api self requests =
     (if length (all_projects_cache self) > 0
      then (Inr (all_projects_cache self), self, requests)
      else
        (case get_credentials api self of
           Inl e \<Rightarrow> (Inl e, self, requests)
         | Inr credentials \<Rightarrow>
             (let project_filter = get_project_api_filter self None
              in case projects_list_execute api (length requests) credentials project_filter of
                   Inl e \<Rightarrow> (Inl e, self, requests @ [project_filter])
                 | Inr response \<Rightarrow>
                     (let projects = dict_get response ''projects'' []
                      in if length projects = 0
                         then (Inl (GoogleInfrastructureError
                                 (''No projects returned for filter '' @ project_filter @ ''. ''
                                  @ ''A Foremast GCP Environment needs at least one project.'')),
                               self, requests @ [project_filter])
                         else (Inr projects, self\<lparr>all_projects_cache := projects\<rparr>,
                               requests @ [project_filter])))))"

text \<open>
  The loop \<^verbatim>\<open>for project in projects: error_message += " " + project['name']\<close>.
\<close>

fun append_names :: "string \<Rightarrow> project list \<Rightarrow> string" where
  "append_names error_message [] = error_message"
| "append_names error_message (project' # projects) =
     append_names (error_message @ '' '' @ project.name project') projects"

text \<open>
  In the last branch \<open>projects\<close> has exactly one element, so \<open>projects ! 0\<close> is in
  range.
\<close>

definition get_project ::
  "('c, 'v) gcp \<Rightarrow> 'v GcpEnvironment \<Rightarrow> string list \<Rightarrow> string
     \<Rightarrow> (error + project) \<times> 'v GcpEnvironment \<times> string list" where
  "get_project api self requests project_prefix =
     (case single_project_cache self project_prefix of
        Some cached \<Rightarrow> (Inr cached, self, requests)
      | None \<Rightarrow>
        (case get_credentials api self of
           Inl e \<Rightarrow> (Inl e, self, requests)
         | Inr credentials \<Rightarrow>
             (let project_filter = get_project_api_filter self (Some project_prefix)
              in case projects_list_execute api (length requests) credentials project_filter of
                   Inl e \<Rightarrow> (Inl e, self, requests @ [project_filter])
                 | Inr response \<Rightarrow>
                     (let projects = dict_get response ''projects'' []
                      in if length projects = 0
                         then (Inl (GoogleInfrastructureError
                                 (''No projects returned for filter '' @ project_filter)),
                               self, requests @ [project_filter])
                         else if length projects > 1
                         then (Inl (GoogleInfrastructureError
                                 (append_names
                                    (''More than one project returned for filter '' @ project_filter
                                     @ ''. Projects returned:'') projects)),
                               self, requests @ [project_filter])
                         else (Inr (projects ! 0),
                               self\<lparr>single_project_cache :=
                                 (single_project_cache self)(project_prefix \<mapsto> projects ! 0)\<rparr>,
                               requests @ [project_filter])))))"

section \<open>Construction from the configuration\<close>

text \<open>
  \<^verbatim>\<open>GcpEnvironment.__init__(self, name, **entries)\<close> assigns the six declared
  attributes and then runs \<^verbatim>\<open>self.__dict__.update(entries)\<close>, so an entry may rebind
  any attribute to any configuration value. The constructor is therefore modelled on the
  attribute dictionary itself: an attribute holds \<^verbatim>\<open>None\<close>, the name, the empty list,
  the empty dictionary, or a value that came from the entries.

  The call \<^verbatim>\<open>GcpEnvironment(name=env_name, **env_config)\<close> passes the entries as
  keyword arguments. Python binds a keyword argument to the parameter of that name, and the
  parameters \<^verbatim>\<open>name\<close> and \<^verbatim>\<open>self\<close> are bound already: such an entry makes the call
  raise \<^verbatim>\<open>TypeError\<close> before the body runs (\<^verbatim>\<open>name\<close> is reported first).
\<close>

datatype 'v attr =
    PyNone
  | PyStr string
  | PyList "project list"
  | PyDict "string \<rightharpoonup> project"
  | Entry 'v

text \<open>The six assignments at the start of the body, for the argument \<^verbatim>\<open>name\<close>.\<close>

definition GcpEnvironment_defaults :: "string \<Rightarrow> (string \<rightharpoonup> 'v attr)" where
  "GcpEnvironment_defaults name' =
     [''name'' \<mapsto> PyStr name',
      ''organization'' \<mapsto> PyNone,
      ''_all_projects_cache'' \<mapsto> PyList [],
      ''_single_project_cache'' \<mapsto> PyDict Map.empty,
      ''service_account_project'' \<mapsto> PyNone,
      ''service_account_path'' \<mapsto> PyNone]"

definition GcpEnvironment_init ::
  "string \<Rightarrow> (string \<rightharpoonup> 'v) \<Rightarrow> error + (string \<rightharpoonup> 'v attr)" where
  "GcpEnvironment_init name' entries =
     (if ''name'' \<in> dom entries
      then Inl (TypeError ''got multiple values for keyword argument 'name' '')
      else if ''self'' \<in> dom entries
      then Inl (TypeError ''got multiple values for argument 'self' '')
      else Inr (GcpEnvironment_defaults name' ++ (map_option Entry \<circ> entries)))"

text \<open>
  \<^verbatim>\<open>get_environments_from_config\<close> reads the constant \<^verbatim>\<open>GCP_ENVS\<close> of
  \<^verbatim>\<open>..consts\<close>, a dictionary from environment names to dictionaries of entries. It is a
  parameter here, given as the list of its items in iteration order. The loop runs over the
  keys and looks each one up again, as the source does.
\<close>

fun build_gcp_envs ::
  "(string \<times> (string \<rightharpoonup> 'v)) list \<Rightarrow> string list \<Rightarrow> (string \<rightharpoonup> (string \<rightharpoonup> 'v attr))
     \<Rightarrow> error + (string \<rightharpoonup> (string \<rightharpoonup> 'v attr))" where
  "build_gcp_envs GCP_ENVS [] gcp_envs = Inr gcp_envs"
| "build_gcp_envs GCP_ENVS (env_name # env_names) gcp_envs =
     (case map_of GCP_ENVS env_name of
        None \<Rightarrow> Inl (KeyError env_name)
      | Some env_config \<Rightarrow>
          (case GcpEnvironment_init env_name env_config of
             Inl e \<Rightarrow> Inl e
           | Inr env \<Rightarrow> build_gcp_envs GCP_ENVS env_names (gcp_envs(env_name \<mapsto> env))))"

definition get_environments_from_config ::
  "(string \<times> (string \<rightharpoonup> 'v)) list \<Rightarrow> error + (string \<rightharpoonup> (string \<rightharpoonup> 'v attr))" where
  "get_environments_from_config GCP_ENVS =
     build_gcp_envs GCP_ENVS (map fst GCP_ENVS) Map.empty"

text \<open>
  The typed reading of an attribute dictionary, which the methods above work on: it exists
  when the name is a string, the two caches are a list and a dictionary of projects, and the
  other declared attributes are \<^verbatim>\<open>None\<close> or configuration values.
\<close>

fun optional_entry :: "'v attr option \<Rightarrow> 'v option option" where
  "optional_entry (Some PyNone) = Some None"
| "optional_entry (Some (Entry v)) = Some (Some v)"
| "optional_entry _ = None"

definition declared_attributes :: "string list" where
  "declared_attributes =
     [''name'', ''organization'', ''_all_projects_cache'', ''_single_project_cache'',
      ''service_account_project'', ''service_account_path'']"

definition extra_entries :: "(string \<rightharpoonup> 'v attr) \<Rightarrow> (string \<rightharpoonup> 'v)" where
  "extra_entries d a =
     (if a \<in> set declared_attributes then None
      else case d a of Some (Entry v) \<Rightarrow> Some v | _ \<Rightarrow> None)"

definition as_GcpEnvironment :: "(string \<rightharpoonup> 'v attr) \<Rightarrow> 'v GcpEnvironment option" where
  "as_GcpEnvironment d =
     (case (d ''name'', d ''_all_projects_cache'', d ''_single_project_cache'') of
        (Some (PyStr n), Some (PyList ps), Some (PyDict m)) \<Rightarrow>
          (case (optional_entry (d ''organization''),
                 optional_entry (d ''service_account_project''),
                 optional_entry (d ''service_account_path'')) of
             (Some org, Some sa_project, Some sa_path) \<Rightarrow>
               Some \<lparr>GcpEnvironment.name = n, organization = org, all_projects_cache = ps,
                     single_project_cache = m, service_account_project = sa_project,
                     service_account_path = sa_path, extra = extra_entries d\<rparr>
           | _ \<Rightarrow> None)
      | _ \<Rightarrow> None)"

text \<open>
  The dictionary that the loop is shown to build when no call of the constructor raises: each
  key of \<^verbatim>\<open>GCP_ENVS\<close> is bound to the attribute dictionary made from its entries. It is
  used in the proofs only.
\<close>

definition configured :: "(string \<times> (string \<rightharpoonup> 'v)) list \<Rightarrow> (string \<rightharpoonup> (string \<rightharpoonup> 'v attr))" where
  "configured GCP_ENVS env_name =
     (case map_of GCP_ENVS env_name of
        None \<Rightarrow> None
      | Some entries \<Rightarrow> Some (GcpEnvironment_defaults env_name ++ (map_option Entry \<circ> entries)))"

section \<open>Example data\<close>

text \<open>
  A remote directory with fixed answers, one per filter, and an environment \<^verbatim>\<open>prod\<close>
  as \<^verbatim>\<open>GcpEnvironment(name='prod', service_account_path='sa.json')\<close> builds it. They
  are the concrete inputs on which the methods are run below. The credentials of the example
  directory are the file name; a filter without an answer makes the query raise.
\<close>

definition static_gcp :: "(string \<times> response) list \<Rightarrow> (string, string) gcp" where
  "static_gcp answers =
     \<lparr>from_service_account_file =
        (\<lambda>filename scopes. case filename of
           None \<Rightarrow> Inl (LibraryError ''no service account file'')
         | Some f \<Rightarrow> Inr f),
      projects_list_execute =
        (\<lambda>n credentials project_filter. case map_of answers project_filter of
           None \<Rightarrow> Inl (LibraryError ''HttpError'')
         | Some response \<Rightarrow> Inr response)\<rparr>"

definition prod :: "string GcpEnvironment" where
  "prod = \<lparr>GcpEnvironment.name = ''prod'', organization = None, all_projects_cache = [],
           single_project_cache = Map.empty, service_account_project = None,
           service_account_path = Some ''sa.json'', extra = Map.empty\<rparr>"

definition proj :: "string \<Rightarrow> string \<Rightarrow> project" where
  "proj n env = \<lparr>project.name = n, labels = [''cloud_env'' \<mapsto> env]\<rparr>"

lemmas run_simps =
  get_all_projects_def get_project_def get_credentials_def get_project_api_filter_def
  dict_get_def Let_def static_gcp_def prod_def

section \<open>What a call leaves unchanged, and when it sends a query\<close>

lemma get_project_keeps_all_projects_cache:
  "all_projects_cache (fst (snd (get_project api self requests project_prefix))) =
     all_projects_cache self"
  by (simp add: get_project_def Let_def split: option.splits sum.splits)

lemma get_all_projects_sends_request:
  assumes "all_projects_cache self = []"
      and "get_credentials api self = Inr credentials"
  shows "snd (snd (get_all_projects api self requests)) =
           requests @ [get_project_api_filter self None]"
  using assms by (simp add: get_all_projects_def Let_def split: sum.splits)

lemma get_project_sends_request:
  assumes "single_project_cache self project_prefix = None"
      and "get_credentials api self = Inr credentials"
  shows "snd (snd (get_project api self requests project_prefix)) =
           requests @ [get_project_api_filter self (Some project_prefix)]"
  using assms by (simp add: get_project_def Let_def split: sum.splits)

section \<open>\<^verbatim>\<open>GcpEnvironment.get_all_projects\<close>\<close>

text \<open>
  C1. Once the cache of all projects is non-empty, \<^verbatim>\<open>get_all_projects\<close> returns the
  cached list and sends no query: the environment and the list of queries sent are as before,
  whatever the collaborators would answer. A call that returned a list is followed, in any
  later state of the query list and with any collaborators, by a call that returns the same
  list and sends nothing. \<^verbatim>\<open>get_project\<close>, the only other method that assigns to the
  environment, leaves the cache of all projects as it is.
\<close>

theorem get_all_projects_cached:
  "(all_projects_cache self \<noteq> [] \<longrightarrow>
      get_all_projects api self requests = (Inr (all_projects_cache self), self, requests))
   \<and> (\<forall>ps self' requests'.
         get_all_projects api self requests = (Inr ps, self', requests') \<longrightarrow>
         get_all_projects api' self' requests'' = (Inr ps, self', requests''))
   \<and> all_projects_cache (fst (snd (get_project api self requests project_prefix))) =
       all_projects_cache self"
proof (intro conjI allI impI)
  assume "all_projects_cache self \<noteq> []"
  then show "get_all_projects api self requests = (Inr (all_projects_cache self), self, requests)"
    by (simp add: get_all_projects_def)
next
  fix ps self' requests'
  assume first: "get_all_projects api self requests = (Inr ps, self', requests')"
  then have "all_projects_cache self' = ps \<and> ps \<noteq> []"
    by (auto simp: get_all_projects_def Let_def split: if_splits sum.splits)
  then show "get_all_projects api' self' requests'' = (Inr ps, self', requests'')"
    by (simp add: get_all_projects_def)
next
  show "all_projects_cache (fst (snd (get_project api self requests project_prefix))) =
       all_projects_cache self"
    by (rule get_project_keeps_all_projects_cache)
qed

theorem get_all_projects_cached_witness:
  "get_all_projects
     (static_gcp [(''labels.cloud_env:prod'',
                   [''projects'' \<mapsto> [proj ''proj-a'' ''prod'', proj ''proj-b'' ''prod'']])])
     prod [] =
   (Inr [proj ''proj-a'' ''prod'', proj ''proj-b'' ''prod''],
    prod\<lparr>all_projects_cache := [proj ''proj-a'' ''prod'', proj ''proj-b'' ''prod'']\<rparr>,
    [''labels.cloud_env:prod''])
   \<and> get_all_projects (static_gcp [])
       (prod\<lparr>all_projects_cache := [proj ''proj-a'' ''prod'', proj ''proj-b'' ''prod'']\<rparr>)
       [''labels.cloud_env:prod''] =
     (Inr [proj ''proj-a'' ''prod'', proj ''proj-b'' ''prod''],
      prod\<lparr>all_projects_cache := [proj ''proj-a'' ''prod'', proj ''proj-b'' ''prod'']\<rparr>,
      [''labels.cloud_env:prod''])"
proof -
  let ?ps = "[proj ''proj-a'' ''prod'', proj ''proj-b'' ''prod'']"
  let ?api = "static_gcp [(''labels.cloud_env:prod'', [''projects'' \<mapsto> ?ps])]"
  let ?self' = "prod\<lparr>all_projects_cache := ?ps\<rparr>"
  have first: "get_all_projects ?api prod [] = (Inr ?ps, ?self', [''labels.cloud_env:prod''])"
    by (simp add: run_simps)
  have nonempty: "all_projects_cache ?self' \<noteq> []"
    by simp
  from get_all_projects_cached
         [of prod ?api "[]" "static_gcp []" "[''labels.cloud_env:prod'']" "''''"]
       first
  have second: "get_all_projects (static_gcp []) ?self' [''labels.cloud_env:prod''] =
      (Inr ?ps, ?self', [''labels.cloud_env:prod''])"
    by blast
  from get_all_projects_cached
         [of ?self' "static_gcp []" "[''labels.cloud_env:prod'']" "static_gcp []" "[]" "''''"]
       nonempty
  have "get_all_projects (static_gcp []) ?self' [''labels.cloud_env:prod''] =
      (Inr (all_projects_cache ?self'), ?self', [''labels.cloud_env:prod''])"
    by blast
  with first second show ?thesis by simp
qed

text \<open>
  C2. With an empty cache of all projects, credentials at hand and a remote answer that holds
  no project, \<^verbatim>\<open>get_all_projects\<close> raises \<^verbatim>\<open>GoogleInfrastructureError\<close> (the
  environment-configuration error of the specification). The message is
  \<^verbatim>\<open>No projects returned for filter F. A Foremast GCP Environment needs at least one project.\<close>
  with \<open>F\<close> the filter that was sent. The environment is as before, so its cache is still
  empty, and the next call whose credentials load sends the query again.
\<close>

theorem get_all_projects_no_projects:
  fixes api :: "('c, 'v) gcp"
  assumes "all_projects_cache self = []"
      and "get_credentials api self = Inr credentials"
      and "projects_list_execute api (length requests) credentials
             (get_project_api_filter self None) = Inr response"
      and "dict_get response ''projects'' [] = []"
  shows "get_all_projects api self requests =
           (Inl (GoogleInfrastructureError
              (''No projects returned for filter '' @ get_project_api_filter self None
               @ ''. A Foremast GCP Environment needs at least one project.'')),
            self, requests @ [get_project_api_filter self None])
         \<and> all_projects_cache (fst (snd (get_all_projects api self requests))) = []
         \<and> (\<forall>(api' :: ('c, 'v) gcp) credentials'.
               get_credentials api' self = Inr credentials' \<longrightarrow>
               snd (snd (get_all_projects api' self
                          (requests @ [get_project_api_filter self None]))) =
               requests @ [get_project_api_filter self None, get_project_api_filter self None])"
proof -
  have outcome: "get_all_projects api self requests =
           (Inl (GoogleInfrastructureError
              (''No projects returned for filter '' @ get_project_api_filter self None
               @ ''. A Foremast GCP Environment needs at least one project.'')),
            self, requests @ [get_project_api_filter self None])"
    using assms by (simp add: get_all_projects_def Let_def)
  have again:
    "snd (snd (get_all_projects api' self (requests @ [get_project_api_filter self None]))) =
       requests @ [get_project_api_filter self None, get_project_api_filter self None]"
    if "get_credentials api' self = Inr credentials'"
    for api' :: "('c, 'v) gcp" and credentials'
    using get_all_projects_sends_request [OF assms(1) that] by simp
  show ?thesis
    using assms(1) again by (simp add: outcome)
qed

theorem get_all_projects_no_projects_witness:
  "get_all_projects (static_gcp [(''labels.cloud_env:prod'', [''projects'' \<mapsto> []])]) prod [] =
     (Inl (GoogleInfrastructureError
        ''No projects returned for filter labels.cloud_env:prod. A Foremast GCP Environment needs at least one project.''),
      prod, [''labels.cloud_env:prod''])
   \<and> all_projects_cache prod = []
   \<and> snd (snd (get_all_projects
        (static_gcp [(''labels.cloud_env:prod'', [''projects'' \<mapsto> [proj ''proj-a'' ''prod'']])])
        prod [''labels.cloud_env:prod''])) =
      [''labels.cloud_env:prod'', ''labels.cloud_env:prod'']"
proof -
  let ?api = "static_gcp [(''labels.cloud_env:prod'', [''projects'' \<mapsto> []])]"
  let ?api' =
    "static_gcp [(''labels.cloud_env:prod'', [''projects'' \<mapsto> [proj ''proj-a'' ''prod'']])]"
  have h1: "all_projects_cache prod = []"
    by (simp add: prod_def)
  have h2: "get_credentials ?api prod = Inr ''sa.json''"
    by (simp add: run_simps)
  have h3: "projects_list_execute ?api (length ([] :: string list)) ''sa.json''
              (get_project_api_filter prod None) = Inr [''projects'' \<mapsto> []]"
    by (simp add: run_simps)
  have h4: "dict_get [''projects'' \<mapsto> ([] :: project list)] ''projects'' [] = []"
    by (simp add: dict_get_def)
  have h5: "get_credentials ?api' prod = Inr ''sa.json''"
    by (simp add: run_simps)
  have f: "get_project_api_filter prod None = ''labels.cloud_env:prod''"
    by (simp add: run_simps)
  note run = get_all_projects_no_projects [OF h1 h2 h3 h4]
  from run have a: "get_all_projects ?api prod [] =
           (Inl (GoogleInfrastructureError
              (''No projects returned for filter '' @ get_project_api_filter prod None
               @ ''. A Foremast GCP Environment needs at least one project.'')),
            prod, [] @ [get_project_api_filter prod None])"
    by blast
  from run h5 have b:
    "snd (snd (get_all_projects ?api' prod ([] @ [get_project_api_filter prod None]))) =
       [] @ [get_project_api_filter prod None, get_project_api_filter prod None]"
    by blast
  show ?thesis
    using a b h1 by (simp add: f)
qed

section \<open>\<^verbatim>\<open>GcpEnvironment.get_project\<close>\<close>

lemma append_names_concat:
  "append_names error_message projects =
     error_message @ concat (map (\<lambda>p. '' '' @ project.name p) projects)"
  by (induction projects arbitrary: error_message) simp_all

lemma sublist_append_names:
  assumes "p \<in> set projects"
  shows "sublist (project.name p) (append_names error_message projects)"
proof -
  from assms obtain before after where "projects = before @ p # after"
    by (auto simp: in_set_conv_decomp)
  then have "append_names error_message projects =
      (error_message @ concat (map (\<lambda>p. '' '' @ project.name p) before) @ '' '')
      @ project.name p @ concat (map (\<lambda>p. '' '' @ project.name p) after)"
    by (simp add: append_names_concat)
  then show ?thesis
    unfolding sublist_def by blast
qed

lemma get_project_keeps_cached:
  assumes "single_project_cache self k = Some p"
  shows "single_project_cache (fst (snd (get_project api self requests project_prefix))) k = Some p"
  using assms by (auto simp: get_project_def Let_def split: option.splits sum.splits)

lemma get_all_projects_keeps_single_project_cache:
  "single_project_cache (fst (snd (get_all_projects api self requests))) =
     single_project_cache self"
  by (simp add: get_all_projects_def Let_def split: sum.splits)

text \<open>
  C3. When the prefix is not cached, the credentials load and the remote answer holds two or
  more projects, \<^verbatim>\<open>get_project\<close> raises \<^verbatim>\<open>GoogleInfrastructureError\<close> (the
  ambiguous-project error of the specification). The message is
  \<^verbatim>\<open>More than one project returned for filter F. Projects returned:\<close> followed by a
  space and the name of each returned project, in order, so it contains every name. The
  environment is as before: the cache has no entry for the prefix.
\<close>

theorem get_project_ambiguous:
  fixes api :: "('c, 'v) gcp"
  assumes "single_project_cache self project_prefix = None"
      and "get_credentials api self = Inr credentials"
      and "projects_list_execute api (length requests) credentials
             (get_project_api_filter self (Some project_prefix)) = Inr response"
      and "dict_get response ''projects'' [] = projects"
      and "length projects \<ge> 2"
  shows "get_project api self requests project_prefix =
           (Inl (GoogleInfrastructureError
              (''More than one project returned for filter ''
               @ get_project_api_filter self (Some project_prefix) @ ''. Projects returned:''
               @ concat (map (\<lambda>p. '' '' @ project.name p) projects))),
            self, requests @ [get_project_api_filter self (Some project_prefix)])
         \<and> (\<forall>p \<in> set projects.
               sublist (project.name p)
                 (''More than one project returned for filter ''
                  @ get_project_api_filter self (Some project_prefix) @ ''. Projects returned:''
                  @ concat (map (\<lambda>p. '' '' @ project.name p) projects)))
         \<and> single_project_cache (fst (snd (get_project api self requests project_prefix)))
             project_prefix = None"
proof -
  let ?f = "get_project_api_filter self (Some project_prefix)"
  let ?header = "''More than one project returned for filter '' @ ?f @ ''. Projects returned:''"
  have several: "projects \<noteq> []" "1 < length projects"
    using assms(5) by auto
  have outcome: "get_project api self requests project_prefix =
      (Inl (GoogleInfrastructureError (append_names ?header projects)), self, requests @ [?f])"
    using assms(1-4) several by (simp add: get_project_def Let_def)
  have names: "sublist (project.name p) (append_names ?header projects)"
    if "p \<in> set projects" for p
    using that by (rule sublist_append_names)
  show ?thesis
    using assms(1) names by (simp add: outcome append_names_concat)
qed

theorem get_project_ambiguous_witness:
  "get_project
     (static_gcp [(''labels.cloud_env:prod name:proj-a*'',
                   [''projects'' \<mapsto> [proj ''proj-a-1'' ''prod'', proj ''proj-a-2'' ''prod'']])])
     prod [] ''proj-a'' =
   (Inl (GoogleInfrastructureError
      ''More than one project returned for filter labels.cloud_env:prod name:proj-a*. Projects returned: proj-a-1 proj-a-2''),
    prod, [''labels.cloud_env:prod name:proj-a*''])
   \<and> sublist ''proj-a-1''
        ''More than one project returned for filter labels.cloud_env:prod name:proj-a*. Projects returned: proj-a-1 proj-a-2''
   \<and> sublist ''proj-a-2''
        ''More than one project returned for filter labels.cloud_env:prod name:proj-a*. Projects returned: proj-a-1 proj-a-2''
   \<and> single_project_cache prod ''proj-a'' = None"
proof -
  let ?ps = "[proj ''proj-a-1'' ''prod'', proj ''proj-a-2'' ''prod'']"
  let ?api = "static_gcp [(''labels.cloud_env:prod name:proj-a*'', [''projects'' \<mapsto> ?ps])]"
  have h1: "single_project_cache prod ''proj-a'' = None"
    by (simp add: prod_def)
  have h2: "get_credentials ?api prod = Inr ''sa.json''"
    by (simp add: run_simps)
  have h3: "projects_list_execute ?api (length ([] :: string list)) ''sa.json''
              (get_project_api_filter prod (Some ''proj-a'')) = Inr [''projects'' \<mapsto> ?ps]"
    by (simp add: run_simps)
  have h4: "dict_get [''projects'' \<mapsto> ?ps] ''projects'' [] = ?ps"
    by (simp add: dict_get_def)
  have h5: "length ?ps \<ge> 2"
    by simp
  have f: "get_project_api_filter prod (Some ''proj-a'') = ''labels.cloud_env:prod name:proj-a*''"
    by (simp add: run_simps)
  note run = get_project_ambiguous [OF h1 h2 h3 h4 h5]
  have outcome: "get_project ?api prod [] ''proj-a'' =
     (Inl (GoogleInfrastructureError
        ''More than one project returned for filter labels.cloud_env:prod name:proj-a*. Projects returned: proj-a-1 proj-a-2''),
      prod, [''labels.cloud_env:prod name:proj-a*''])"
    using run by (simp add: f proj_def)
  from run have "\<forall>p \<in> set ?ps. sublist (project.name p)
      (''More than one project returned for filter ''
       @ get_project_api_filter prod (Some ''proj-a'') @ ''. Projects returned:''
       @ concat (map (\<lambda>p. '' '' @ project.name p) ?ps))"
    by blast
  then show ?thesis
    using outcome h1 by (simp add: f proj_def)
qed

text \<open>
  C4. When the prefix is not cached, the credentials load and the remote answer holds no
  project, \<^verbatim>\<open>get_project\<close> raises \<^verbatim>\<open>GoogleInfrastructureError\<close> (the
  environment-configuration error of the specification) with the message
  \<^verbatim>\<open>No projects returned for filter F\<close>, \<open>F\<close> being the filter that was sent. The
  environment is as before.
\<close>

theorem get_project_no_projects:
  fixes api :: "('c, 'v) gcp"
  assumes "single_project_cache self project_prefix = None"
      and "get_credentials api self = Inr credentials"
      and "projects_list_execute api (length requests) credentials
             (get_project_api_filter self (Some project_prefix)) = Inr response"
      and "dict_get response ''projects'' [] = []"
  shows "get_project api self requests project_prefix =
           (Inl (GoogleInfrastructureError
              (''No projects returned for filter ''
               @ get_project_api_filter self (Some project_prefix))),
            self, requests @ [get_project_api_filter self (Some project_prefix)])"
  using assms by (simp add: get_project_def Let_def)

theorem get_project_no_projects_witness:
  "get_project (static_gcp [(''labels.cloud_env:prod name:proj-a*'', [''projects'' \<mapsto> []])])
     prod [] ''proj-a'' =
   (Inl (GoogleInfrastructureError
      ''No projects returned for filter labels.cloud_env:prod name:proj-a*''),
    prod, [''labels.cloud_env:prod name:proj-a*''])"
proof -
  let ?api = "static_gcp [(''labels.cloud_env:prod name:proj-a*'', [''projects'' \<mapsto> []])]"
  have h1: "single_project_cache prod ''proj-a'' = None"
    by (simp add: prod_def)
  have h2: "get_credentials ?api prod = Inr ''sa.json''"
    by (simp add: run_simps)
  have h3: "projects_list_execute ?api (length ([] :: string list)) ''sa.json''
              (get_project_api_filter prod (Some ''proj-a'')) = Inr [''projects'' \<mapsto> []]"
    by (simp add: run_simps)
  have h4: "dict_get [''projects'' \<mapsto> ([] :: project list)] ''projects'' [] = []"
    by (simp add: dict_get_def)
  have f: "get_project_api_filter prod (Some ''proj-a'') = ''labels.cloud_env:prod name:proj-a*''"
    by (simp add: run_simps)
  show ?thesis
    using get_project_no_projects [OF h1 h2 h3 h4] by (simp add: f)
qed

text \<open>
  C5. When the prefix is not cached, the credentials load and the remote answer holds exactly
  one project, \<^verbatim>\<open>get_project\<close> stores the project in the cache under the prefix and
  returns it. In every state whose cache holds the project under the prefix, a call with that
  prefix returns the project and sends no query, whatever the collaborators; and no call of
  either method, with any prefix, removes or replaces the entry.
\<close>

theorem get_project_single:
  fixes api :: "('c, 'v) gcp"
  assumes "single_project_cache self project_prefix = None"
      and "get_credentials api self = Inr credentials"
      and "projects_list_execute api (length requests) credentials
             (get_project_api_filter self (Some project_prefix)) = Inr response"
      and "dict_get response ''projects'' [] = [p]"
  shows "get_project api self requests project_prefix =
           (Inr p,
            self\<lparr>single_project_cache := (single_project_cache self)(project_prefix \<mapsto> p)\<rparr>,
            requests @ [get_project_api_filter self (Some project_prefix)])
         \<and> (\<forall>(api' :: ('c, 'v) gcp) (self' :: 'v GcpEnvironment) requests'.
               single_project_cache self' project_prefix = Some p \<longrightarrow>
               get_project api' self' requests' project_prefix = (Inr p, self', requests')
               \<and> (\<forall>other. single_project_cache
                     (fst (snd (get_project api' self' requests' other))) project_prefix = Some p)
               \<and> single_project_cache
                     (fst (snd (get_all_projects api' self' requests'))) project_prefix = Some p)"
proof -
  have first: "get_project api self requests project_prefix =
           (Inr p,
            self\<lparr>single_project_cache := (single_project_cache self)(project_prefix \<mapsto> p)\<rparr>,
            requests @ [get_project_api_filter self (Some project_prefix)])"
    using assms by (simp add: get_project_def Let_def)
  have later: "get_project api' self' requests' project_prefix = (Inr p, self', requests')"
    if "single_project_cache self' project_prefix = Some p"
    for api' :: "('c, 'v) gcp" and self' :: "'v GcpEnvironment" and requests'
    using that by (simp add: get_project_def)
  show ?thesis
    using first later
    by (simp add: get_project_keeps_cached get_all_projects_keeps_single_project_cache)
qed

theorem get_project_single_witness:
  "get_project
     (static_gcp [(''labels.cloud_env:prod name:proj-a*'',
                   [''projects'' \<mapsto> [proj ''proj-a-1'' ''prod'']])])
     prod [] ''proj-a'' =
   (Inr (proj ''proj-a-1'' ''prod''),
    prod\<lparr>single_project_cache := [''proj-a'' \<mapsto> proj ''proj-a-1'' ''prod'']\<rparr>,
    [''labels.cloud_env:prod name:proj-a*''])
   \<and> get_project (static_gcp [])
       (prod\<lparr>single_project_cache := [''proj-a'' \<mapsto> proj ''proj-a-1'' ''prod'']\<rparr>)
       [''labels.cloud_env:prod name:proj-a*''] ''proj-a'' =
     (Inr (proj ''proj-a-1'' ''prod''),
      prod\<lparr>single_project_cache := [''proj-a'' \<mapsto> proj ''proj-a-1'' ''prod'']\<rparr>,
      [''labels.cloud_env:prod name:proj-a*''])"
proof -
  let ?p = "proj ''proj-a-1'' ''prod''"
  let ?api = "static_gcp [(''labels.cloud_env:prod name:proj-a*'', [''projects'' \<mapsto> [?p]])]"
  let ?self' = "prod\<lparr>single_project_cache := [''proj-a'' \<mapsto> ?p]\<rparr>"
  have h1: "single_project_cache prod ''proj-a'' = None"
    by (simp add: prod_def)
  have h2: "get_credentials ?api prod = Inr ''sa.json''"
    by (simp add: run_simps)
  have h3: "projects_list_execute ?api (length ([] :: string list)) ''sa.json''
              (get_project_api_filter prod (Some ''proj-a'')) = Inr [''projects'' \<mapsto> [?p]]"
    by (simp add: run_simps)
  have h4: "dict_get [''projects'' \<mapsto> [?p]] ''projects'' [] = [?p]"
    by (simp add: dict_get_def)
  have h5: "single_project_cache ?self' ''proj-a'' = Some ?p"
    by simp
  have f: "get_project_api_filter prod (Some ''proj-a'') = ''labels.cloud_env:prod name:proj-a*''"
    by (simp add: run_simps)
  have cache: "(single_project_cache prod)(''proj-a'' \<mapsto> ?p) = [''proj-a'' \<mapsto> ?p]"
    by (simp add: prod_def)
  note run = get_project_single [OF h1 h2 h3 h4]
  from run have first: "get_project ?api prod [] ''proj-a'' =
      (Inr ?p, ?self', [''labels.cloud_env:prod name:proj-a*''])"
    by (simp add: f cache)
  from run h5 have "get_project (static_gcp []) ?self' [''labels.cloud_env:prod name:proj-a*'']
      ''proj-a'' = (Inr ?p, ?self', [''labels.cloud_env:prod name:proj-a*''])"
    by blast
  with first show ?thesis by simp
qed

text \<open>
  C10. \<^verbatim>\<open>get_project\<close> does not inspect the record it receives: when the prefix is not
  cached, the credentials load and the remote answer holds exactly one record, that record is
  returned and stored under the prefix, whatever its name and labels are. The example is a
  record whose name does not start with the prefix and that has no \<^verbatim>\<open>cloud_env\<close> label.
\<close>

theorem get_project_unchecked_record:
  fixes api :: "('c, 'v) gcp"
  assumes "single_project_cache self project_prefix = None"
      and "get_credentials api self = Inr credentials"
      and "projects_list_execute api (length requests) credentials
             (get_project_api_filter self (Some project_prefix)) = Inr response"
      and "response ''projects'' = Some [r]"
  shows "get_project api self requests project_prefix =
           (Inr r,
            self\<lparr>single_project_cache := (single_project_cache self)(project_prefix \<mapsto> r)\<rparr>,
            requests @ [get_project_api_filter self (Some project_prefix)])"
  using assms by (simp add: get_project_def dict_get_def Let_def)

theorem get_project_unchecked_record_witness:
  "\<not> prefix ''proj-a'' (project.name \<lparr>project.name = ''other'', labels = Map.empty\<rparr>)
   \<and> labels \<lparr>project.name = ''other'', labels = Map.empty\<rparr> ''cloud_env'' = None
   \<and> get_project
        (static_gcp [(''labels.cloud_env:prod name:proj-a*'',
                      [''projects'' \<mapsto> [\<lparr>project.name = ''other'', labels = Map.empty\<rparr>]])])
        prod [] ''proj-a'' =
       (Inr \<lparr>project.name = ''other'', labels = Map.empty\<rparr>,
        prod\<lparr>single_project_cache :=
               [''proj-a'' \<mapsto> \<lparr>project.name = ''other'', labels = Map.empty\<rparr>]\<rparr>,
        [''labels.cloud_env:prod name:proj-a*''])"
proof -
  let ?r = "\<lparr>project.name = ''other'', labels = Map.empty\<rparr>"
  let ?api = "static_gcp [(''labels.cloud_env:prod name:proj-a*'', [''projects'' \<mapsto> [?r]])]"
  have h1: "single_project_cache prod ''proj-a'' = None"
    by (simp add: prod_def)
  have h2: "get_credentials ?api prod = Inr ''sa.json''"
    by (simp add: run_simps)
  have h3: "projects_list_execute ?api (length ([] :: string list)) ''sa.json''
              (get_project_api_filter prod (Some ''proj-a'')) = Inr [''projects'' \<mapsto> [?r]]"
    by (simp add: run_simps)
  have h4: "[''projects'' \<mapsto> [?r]] ''projects'' = Some [?r]"
    by simp
  have f: "get_project_api_filter prod (Some ''proj-a'') = ''labels.cloud_env:prod name:proj-a*''"
    by (simp add: run_simps)
  have cache: "(single_project_cache prod)(''proj-a'' \<mapsto> ?r) = [''proj-a'' \<mapsto> ?r]"
    by (simp add: prod_def)
  show ?thesis
    using get_project_unchecked_record [OF h1 h2 h3 h4] by (simp add: f cache)
qed

section \<open>The filter\<close>

text \<open>
  C6. For an environment named \<open>n\<close>, the filter for all projects is
  \<^verbatim>\<open>labels.cloud_env:n\<close>, and the filter for the prefix \<open>p\<close> is
  \<^verbatim>\<open>labels.cloud_env:n name:p*\<close>. These are the filters of the queries that
  \<^verbatim>\<open>get_all_projects\<close> and \<^verbatim>\<open>get_project\<close> send when the cache does not answer and
  the credentials load.
\<close>

theorem project_api_filter:
  fixes api :: "('c, 'v) gcp"
  shows "get_project_api_filter self None = ''labels.cloud_env:'' @ GcpEnvironment.name self
   \<and> get_project_api_filter self (Some p) =
       ''labels.cloud_env:'' @ GcpEnvironment.name self @ '' name:'' @ p @ ''*''
   \<and> (all_projects_cache self = [] \<and> get_credentials api self = Inr credentials \<longrightarrow>
        snd (snd (get_all_projects api self requests)) =
          requests @ [''labels.cloud_env:'' @ GcpEnvironment.name self])
   \<and> (single_project_cache self p = None \<and> get_credentials api self = Inr credentials \<longrightarrow>
        snd (snd (get_project api self requests p)) =
          requests @ [''labels.cloud_env:'' @ GcpEnvironment.name self @ '' name:'' @ p @ ''*''])"
proof -
  have all: "get_project_api_filter self None = ''labels.cloud_env:'' @ GcpEnvironment.name self"
    by (simp add: get_project_api_filter_def)
  have one: "get_project_api_filter self (Some p) =
      ''labels.cloud_env:'' @ GcpEnvironment.name self @ '' name:'' @ p @ ''*''"
    by (simp add: get_project_api_filter_def)
  show ?thesis
    using get_all_projects_sends_request [of self api credentials requests]
          get_project_sends_request [of self p api credentials requests]
    by (simp only: all one) blast
qed

theorem project_api_filter_witness:
  "get_project_api_filter prod None = ''labels.cloud_env:prod''
   \<and> get_project_api_filter prod (Some ''proj-a'') = ''labels.cloud_env:prod name:proj-a*''
   \<and> snd (snd (get_all_projects (static_gcp []) prod [])) = [''labels.cloud_env:prod'']
   \<and> snd (snd (get_project (static_gcp []) prod [] ''proj-a'')) =
       [''labels.cloud_env:prod name:proj-a*'']"
proof -
  have h1: "all_projects_cache prod = []"
    by (simp add: prod_def)
  have h2: "get_credentials (static_gcp []) prod = Inr ''sa.json''"
    by (simp add: run_simps)
  have h3: "single_project_cache prod ''proj-a'' = None"
    by (simp add: prod_def)
  have n: "GcpEnvironment.name prod = ''prod''"
    by (simp add: prod_def)
  show ?thesis
    using project_api_filter [of prod "''proj-a''" "static_gcp []" "''sa.json''" "[]"] h1 h2 h3
    by (simp add: n)
qed

section \<open>A response without the key \<^verbatim>\<open>projects\<close>\<close>

text \<open>
  C9. A response that has no key \<^verbatim>\<open>projects\<close> is treated as the same response with
  an empty list under that key: both methods give the same outcome, environment and list of
  sent queries for the two. On a cache miss with credentials at hand that outcome is the
  error for no projects, \<^verbatim>\<open>GoogleInfrastructureError\<close> with the message that begins
  \<^verbatim>\<open>No projects returned for filter\<close>, and not a lookup error.
\<close>

theorem response_without_projects_key:
  fixes api :: "('c, 'v) gcp"
  assumes "response ''projects'' = None"
  shows "get_all_projects (api\<lparr>projects_list_execute := \<lambda>n c f. Inr response\<rparr>) self requests =
         get_all_projects
           (api\<lparr>projects_list_execute := \<lambda>n c f. Inr (response(''projects'' \<mapsto> []))\<rparr>)
           self requests
       \<and> get_project (api\<lparr>projects_list_execute := \<lambda>n c f. Inr response\<rparr>) self requests
           project_prefix =
         get_project
           (api\<lparr>projects_list_execute := \<lambda>n c f. Inr (response(''projects'' \<mapsto> []))\<rparr>)
           self requests project_prefix
       \<and> (all_projects_cache self = [] \<and> get_credentials api self = Inr credentials \<longrightarrow>
            get_all_projects (api\<lparr>projects_list_execute := \<lambda>n c f. Inr response\<rparr>) self requests =
              (Inl (GoogleInfrastructureError
                 (''No projects returned for filter '' @ get_project_api_filter self None
                  @ ''. A Foremast GCP Environment needs at least one project.'')),
               self, requests @ [get_project_api_filter self None]))
       \<and> (single_project_cache self project_prefix = None
            \<and> get_credentials api self = Inr credentials \<longrightarrow>
            get_project (api\<lparr>projects_list_execute := \<lambda>n c f. Inr response\<rparr>) self requests
              project_prefix =
              (Inl (GoogleInfrastructureError
                 (''No projects returned for filter ''
                  @ get_project_api_filter self (Some project_prefix))),
               self, requests @ [get_project_api_filter self (Some project_prefix)]))"
  using assms
  by (simp add: get_all_projects_def get_project_def get_credentials_def dict_get_def Let_def
           split: option.splits sum.splits)

theorem response_without_projects_key_witness:
  "(Map.empty :: response) ''projects'' = None
   \<and> get_all_projects (static_gcp [(''labels.cloud_env:prod'', Map.empty)]) prod [] =
       (Inl (GoogleInfrastructureError
          ''No projects returned for filter labels.cloud_env:prod. A Foremast GCP Environment needs at least one project.''),
        prod, [''labels.cloud_env:prod''])
   \<and> get_project (static_gcp [(''labels.cloud_env:prod name:proj-a*'', Map.empty)]) prod []
        ''proj-a'' =
       (Inl (GoogleInfrastructureError
          ''No projects returned for filter labels.cloud_env:prod name:proj-a*''),
        prod, [''labels.cloud_env:prod name:proj-a*''])"
proof -
  let ?api = "static_gcp []"
  let ?api' = "?api\<lparr>projects_list_execute := \<lambda>n c f. Inr (Map.empty :: response)\<rparr>"
  have h0: "(Map.empty :: response) ''projects'' = None"
    by simp
  have h1: "all_projects_cache prod = []"
    by (simp add: prod_def)
  have h2: "get_credentials ?api prod = Inr ''sa.json''"
    by (simp add: run_simps)
  have h3: "single_project_cache prod ''proj-a'' = None"
    by (simp add: prod_def)
  have same_all:
    "get_all_projects (static_gcp [(''labels.cloud_env:prod'', Map.empty)]) prod [] =
       get_all_projects ?api' prod []"
    by (simp add: run_simps)
  have same_one:
    "get_project (static_gcp [(''labels.cloud_env:prod name:proj-a*'', Map.empty)]) prod []
       ''proj-a'' = get_project ?api' prod [] ''proj-a''"
    by (simp add: run_simps)
  have f: "get_project_api_filter prod None = ''labels.cloud_env:prod''"
          "get_project_api_filter prod (Some ''proj-a'') = ''labels.cloud_env:prod name:proj-a*''"
    by (simp_all add: run_simps)
  note run = response_without_projects_key
               [OF h0, of ?api prod "[]" "''proj-a''" "''sa.json''"]
  from run h1 h2 have a: "get_all_projects ?api' prod [] =
      (Inl (GoogleInfrastructureError
         (''No projects returned for filter '' @ get_project_api_filter prod None
          @ ''. A Foremast GCP Environment needs at least one project.'')),
       prod, [] @ [get_project_api_filter prod None])"
    by blast
  from run h3 h2 have b: "get_project ?api' prod [] ''proj-a'' =
      (Inl (GoogleInfrastructureError
         (''No projects returned for filter '' @ get_project_api_filter prod (Some ''proj-a''))),
       prod, [] @ [get_project_api_filter prod (Some ''proj-a'')])"
    by blast
  show ?thesis
    using a b by (simp add: same_all same_one f)
qed

section \<open>\<^verbatim>\<open>GcpEnvironment.get_environments_from_config\<close>\<close>

lemma keys_bound:
  "k \<in> set (map fst GCP_ENVS) \<Longrightarrow> \<exists>entries. map_of GCP_ENVS k = Some entries"
  by (cases "map_of GCP_ENVS k") (simp_all add: map_of_eq_None_iff)

lemma configured_None:
  assumes "k \<notin> set (map fst GCP_ENVS)"
  shows "configured GCP_ENVS k = None"
proof -
  from assms have "map_of GCP_ENVS k = None"
    by (simp add: map_of_eq_None_iff)
  then show ?thesis
    by (simp add: configured_def)
qed

lemma dom_configured: "dom (configured GCP_ENVS) = fst ` set GCP_ENVS"
proof -
  have "configured GCP_ENVS k \<noteq> None \<longleftrightarrow> map_of GCP_ENVS k \<noteq> None" for k
    by (simp add: configured_def split: option.splits)
  then show ?thesis
    by (auto simp: dom_def map_of_eq_None_iff)
qed

lemma build_gcp_envs_ok:
  assumes "\<forall>k \<in> set env_names. \<exists>entries. map_of GCP_ENVS k = Some entries
             \<and> ''name'' \<notin> dom entries \<and> ''self'' \<notin> dom entries"
  shows "build_gcp_envs GCP_ENVS env_names gcp_envs =
           Inr (\<lambda>k. if k \<in> set env_names then configured GCP_ENVS k else gcp_envs k)"
  using assms
proof (induction env_names arbitrary: gcp_envs)
  case Nil
  then show ?case by simp
next
  case (Cons env_name env_names)
  from Cons.prems obtain entries where entries: "map_of GCP_ENVS env_name = Some entries"
      "''name'' \<notin> dom entries" "''self'' \<notin> dom entries"
    by auto
  define env where "env = GcpEnvironment_defaults env_name ++ (map_option Entry \<circ> entries)"
  have init: "GcpEnvironment_init env_name entries = Inr env"
    using entries(2,3) by (simp add: GcpEnvironment_init_def env_def)
  have here: "configured GCP_ENVS env_name = Some env"
    by (simp add: configured_def entries(1) env_def)
  have tail: "\<forall>k \<in> set env_names. \<exists>entries. map_of GCP_ENVS k = Some entries
             \<and> ''name'' \<notin> dom entries \<and> ''self'' \<notin> dom entries"
    using Cons.prems by simp
  have rest: "build_gcp_envs GCP_ENVS env_names (gcp_envs(env_name \<mapsto> env)) =
      Inr (\<lambda>k. if k \<in> set env_names then configured GCP_ENVS k
                else (gcp_envs(env_name \<mapsto> env)) k)"
    using tail by (rule Cons.IH)
  have same: "(\<lambda>k. if k \<in> set env_names then configured GCP_ENVS k
              else (gcp_envs(env_name \<mapsto> env)) k) =
        (\<lambda>k. if k \<in> set (env_name # env_names) then configured GCP_ENVS k else gcp_envs k)"
  proof
    fix k
    show "(if k \<in> set env_names then configured GCP_ENVS k
           else (gcp_envs(env_name \<mapsto> env)) k) =
          (if k \<in> set (env_name # env_names) then configured GCP_ENVS k else gcp_envs k)"
      using here by (cases "k = env_name") simp_all
  qed
  have "build_gcp_envs GCP_ENVS (env_name # env_names) gcp_envs =
      build_gcp_envs GCP_ENVS env_names (gcp_envs(env_name \<mapsto> env))"
    by (simp add: entries(1) init)
  then show ?case
    by (simp only: rest same)
qed

lemma build_gcp_envs_type_error:
  assumes "\<forall>k \<in> set env_names. map_of GCP_ENVS k \<noteq> None"
      and "\<exists>k \<in> set env_names. \<exists>entries. map_of GCP_ENVS k = Some entries
             \<and> (''name'' \<in> dom entries \<or> ''self'' \<in> dom entries)"
  shows "\<exists>message. build_gcp_envs GCP_ENVS env_names gcp_envs = Inl (TypeError message)"
  using assms
proof (induction env_names arbitrary: gcp_envs)
  case Nil
  then show ?case by simp
next
  case (Cons env_name env_names)
  from Cons.prems(1) obtain entries where entries: "map_of GCP_ENVS env_name = Some entries"
    by auto
  show ?case
  proof (cases "''name'' \<in> dom entries \<or> ''self'' \<in> dom entries")
    case True
    have "\<exists>message. GcpEnvironment_init env_name entries = Inl (TypeError message)"
    proof (cases "''name'' \<in> dom entries")
      case True
      then show ?thesis
        unfolding GcpEnvironment_init_def by (simp only: if_True) blast
    next
      case False
      with \<open>''name'' \<in> dom entries \<or> ''self'' \<in> dom entries\<close>
      have "''self'' \<in> dom entries" by blast
      with False show ?thesis
        unfolding GcpEnvironment_init_def by (simp only: if_True if_False) blast
    qed
    then obtain message where "GcpEnvironment_init env_name entries = Inl (TypeError message)"
      by blast
    then show ?thesis
      by (simp add: entries)
  next
    case False
    then have "''name'' \<notin> dom entries" "''self'' \<notin> dom entries"
      by blast+
    then obtain env where init: "GcpEnvironment_init env_name entries = Inr env"
      unfolding GcpEnvironment_init_def by (simp only: if_False)
    from Cons.prems(2) \<open>\<not> (''name'' \<in> dom entries \<or> ''self'' \<in> dom entries)\<close> entries
    have later: "\<exists>k \<in> set env_names. \<exists>entries. map_of GCP_ENVS k = Some entries
             \<and> (''name'' \<in> dom entries \<or> ''self'' \<in> dom entries)"
      by auto
    from Cons.prems(1) have bound: "\<forall>k \<in> set env_names. map_of GCP_ENVS k \<noteq> None"
      by simp
    have "\<exists>message. build_gcp_envs GCP_ENVS env_names (gcp_envs(env_name \<mapsto> env)) =
        Inl (TypeError message)"
      using bound later by (rule Cons.IH)
    then show ?thesis
      by (simp add: entries init)
  qed
qed

lemma keys_not_None:
  assumes "k \<in> set (map fst GCP_ENVS)"
  shows "map_of GCP_ENVS k \<noteq> None"
proof -
  from assms have "\<exists>entries. map_of GCP_ENVS k = Some entries"
    by (rule keys_bound)
  then show ?thesis by auto
qed

lemma get_environments_from_config_ok:
  assumes "\<forall>env_name entries. map_of GCP_ENVS env_name = Some entries \<longrightarrow>
             ''name'' \<notin> dom entries \<and> ''self'' \<notin> dom entries"
  shows "get_environments_from_config GCP_ENVS = Inr (configured GCP_ENVS)"
proof -
  have "\<forall>k \<in> set (map fst GCP_ENVS). \<exists>entries. map_of GCP_ENVS k = Some entries
             \<and> ''name'' \<notin> dom entries \<and> ''self'' \<notin> dom entries"
  proof
    fix k
    assume "k \<in> set (map fst GCP_ENVS)"
    then have "\<exists>entries. map_of GCP_ENVS k = Some entries"
      by (rule keys_bound)
    then obtain entries where bound: "map_of GCP_ENVS k = Some entries" ..
    with assms have "''name'' \<notin> dom entries \<and> ''self'' \<notin> dom entries"
      by (elim allE impE) assumption+
    with bound show "\<exists>entries. map_of GCP_ENVS k = Some entries
             \<and> ''name'' \<notin> dom entries \<and> ''self'' \<notin> dom entries"
      by (intro exI conjI) (assumption, simp_all)
  qed
  then have "build_gcp_envs GCP_ENVS (map fst GCP_ENVS) Map.empty =
      Inr (\<lambda>k. if k \<in> set (map fst GCP_ENVS) then configured GCP_ENVS k else Map.empty k)"
    by (rule build_gcp_envs_ok)
  then have built: "get_environments_from_config GCP_ENVS =
      Inr (\<lambda>k. if k \<in> set (map fst GCP_ENVS) then configured GCP_ENVS k else None)"
    by (simp only: get_environments_from_config_def)
  have "(\<lambda>k. if k \<in> set (map fst GCP_ENVS) then configured GCP_ENVS k else None) =
      configured GCP_ENVS"
  proof
    fix k
    show "(if k \<in> set (map fst GCP_ENVS) then configured GCP_ENVS k else None) =
      configured GCP_ENVS k"
    proof (cases "k \<in> set (map fst GCP_ENVS)")
      case True
      then show ?thesis by (simp only: if_True)
    next
      case False
      then have "configured GCP_ENVS k = None" by (rule configured_None)
      with False show ?thesis by (simp only: if_False)
    qed
  qed
  with built show ?thesis by (simp only:)
qed

lemma get_environments_from_config_type_error:
  assumes "map_of GCP_ENVS env_name = Some entries"
      and "''name'' \<in> dom entries \<or> ''self'' \<in> dom entries"
  shows "\<exists>message. get_environments_from_config GCP_ENVS = Inl (TypeError message)"
proof -
  have bound: "\<forall>k \<in> set (map fst GCP_ENVS). map_of GCP_ENVS k \<noteq> None"
    by (intro ballI keys_not_None)
  have "env_name \<in> set (map fst GCP_ENVS)"
  proof (rule ccontr)
    assume "env_name \<notin> set (map fst GCP_ENVS)"
    then have "map_of GCP_ENVS env_name = None"
      by (simp add: map_of_eq_None_iff)
    with assms(1) show False by simp
  qed
  with assms have "\<exists>k \<in> set (map fst GCP_ENVS). \<exists>entries. map_of GCP_ENVS k = Some entries
             \<and> (''name'' \<in> dom entries \<or> ''self'' \<in> dom entries)"
    by (intro bexI exI conjI) assumption+
  with bound have "\<exists>message. build_gcp_envs GCP_ENVS (map fst GCP_ENVS) Map.empty =
      Inl (TypeError message)"
    by (rule build_gcp_envs_type_error)
  then show ?thesis
    by (simp only: get_environments_from_config_def)
qed

lemma update_lookup:
  "(m ++ (map_option Entry \<circ> entries)) a =
     (case entries a of None \<Rightarrow> m a | Some v \<Rightarrow> Some (Entry v))"
  by (cases "entries a") (simp_all add: map_add_def)

lemma defaults_name: "GcpEnvironment_defaults n ''name'' = Some (PyStr n)"
  by (simp add: GcpEnvironment_defaults_def)

lemma defaults_caches:
  "GcpEnvironment_defaults n ''_all_projects_cache'' = Some (PyList [])"
  "GcpEnvironment_defaults n ''_single_project_cache'' = Some (PyDict Map.empty)"
  by (simp_all add: GcpEnvironment_defaults_def)

lemma defaults_optional:
  "GcpEnvironment_defaults n ''organization'' = Some PyNone"
  "GcpEnvironment_defaults n ''service_account_project'' = Some PyNone"
  "GcpEnvironment_defaults n ''service_account_path'' = Some PyNone"
  by (simp_all add: GcpEnvironment_defaults_def)

lemma defaults_undeclared:
  assumes "a \<notin> set declared_attributes"
  shows "GcpEnvironment_defaults n a = None"
  using assms by (simp add: GcpEnvironment_defaults_def declared_attributes_def)

lemma optional_entry_update:
  assumes "m a = Some PyNone"
  shows "optional_entry ((m ++ (map_option Entry \<circ> entries)) a) = Some (entries a)"
  using assms by (cases "entries a") (simp_all add: update_lookup)

lemma extra_entries_update:
  "extra_entries (GcpEnvironment_defaults n ++ (map_option Entry \<circ> entries)) =
     (\<lambda>a. if a \<in> set declared_attributes then None else entries a)"
proof
  fix a
  show "extra_entries (GcpEnvironment_defaults n ++ (map_option Entry \<circ> entries)) a =
     (if a \<in> set declared_attributes then None else entries a)"
  proof (cases "a \<in> set declared_attributes")
    case True
    then show ?thesis by (simp only: extra_entries_def if_True)
  next
    case False
    then have "GcpEnvironment_defaults n a = (None :: 'a attr option)"
      by (rule defaults_undeclared)
    with False show ?thesis
      by (cases "entries a") (simp_all only: extra_entries_def update_lookup if_False
            option.case attr.case)
  qed
qed

lemma as_GcpEnvironment_init:
  assumes "GcpEnvironment_init n entries = Inr d"
      and "''_all_projects_cache'' \<notin> dom entries"
      and "''_single_project_cache'' \<notin> dom entries"
  shows "as_GcpEnvironment d =
           Some \<lparr>GcpEnvironment.name = n, organization = entries ''organization'',
                 all_projects_cache = [], single_project_cache = Map.empty,
                 service_account_project = entries ''service_account_project'',
                 service_account_path = entries ''service_account_path'',
                 extra = (\<lambda>a. if a \<in> set declared_attributes then None else entries a)\<rparr>"
proof -
  have ok: "''name'' \<notin> dom entries"
    using assms(1) by (cases "''name'' \<in> dom entries") (simp_all add: GcpEnvironment_init_def)
  then have ok': "''self'' \<notin> dom entries"
    using assms(1) by (cases "''self'' \<in> dom entries") (simp_all add: GcpEnvironment_init_def)
  from assms(1) ok ok'
  have d: "d = GcpEnvironment_defaults n ++ (map_option Entry \<circ> entries)"
    by (simp add: GcpEnvironment_init_def)
  from ok assms(2,3)
  have unset: "entries ''name'' = None" "entries ''_all_projects_cache'' = None"
      "entries ''_single_project_cache'' = None"
    by (simp_all add: dom_def)
  have fixed: "d ''name'' = Some (PyStr n)" "d ''_all_projects_cache'' = Some (PyList [])"
      "d ''_single_project_cache'' = Some (PyDict Map.empty)"
    by (simp_all add: d update_lookup unset defaults_name defaults_caches)
  have opt: "optional_entry (d ''organization'') = Some (entries ''organization'')"
      "optional_entry (d ''service_account_project'') = Some (entries ''service_account_project'')"
      "optional_entry (d ''service_account_path'') = Some (entries ''service_account_path'')"
    unfolding d by (rule optional_entry_update, rule defaults_optional)+
  have extra: "extra_entries d = (\<lambda>a. if a \<in> set declared_attributes then None else entries a)"
    unfolding d by (rule extra_entries_update)
  show ?thesis
    by (simp add: as_GcpEnvironment_def fixed opt extra)
qed

lemma example_config_entries:
  "\<forall>env_name entries.
      map_of [(''prod'', [''organization'' \<mapsto> ''acme'', ''region'' \<mapsto> ''us'']),
              (''dev'', Map.empty)] env_name = Some entries \<longrightarrow>
        ''name'' \<notin> dom entries \<and> ''self'' \<notin> dom entries"
proof (intro allI impI)
  fix env_name :: string and entries :: "string \<rightharpoonup> string"
  assume "map_of [(''prod'', [''organization'' \<mapsto> ''acme'', ''region'' \<mapsto> ''us'']),
              (''dev'', Map.empty)] env_name = Some entries"
  then have "entries = [''organization'' \<mapsto> ''acme'', ''region'' \<mapsto> ''us''] \<or> entries = Map.empty"
    by (simp split: if_splits)
  then show "''name'' \<notin> dom entries \<and> ''self'' \<notin> dom entries"
    by (elim disjE) simp_all
qed

text \<open>
  C8. Let no dictionary of entries in \<^verbatim>\<open>GCP_ENVS\<close> have the key
  \<^verbatim>\<open>name\<close> or \<^verbatim>\<open>self\<close>. Then \<^verbatim>\<open>get_environments_from_config\<close> returns a
  dictionary with exactly the keys of \<^verbatim>\<open>GCP_ENVS\<close>. The environment under a key has that
  key as its \<^verbatim>\<open>name\<close>; every entry is stored verbatim under its own key, declared by
  the class or not; every attribute without an entry keeps the value that
  \<^verbatim>\<open>__init__\<close> assigns. When the entries do not rebind the two caches, the typed reading
  of the environment has the key as name, empty caches, the entries of the three optional
  attributes, and all other entries as extra attributes. If some dictionary of entries has
  the key \<^verbatim>\<open>name\<close> or \<^verbatim>\<open>self\<close>, the call raises \<^verbatim>\<open>TypeError\<close>. The empty
  configuration gives the empty dictionary. The function takes no collaborator and no list
  of queries: it sends nothing.
\<close>

theorem get_environments_from_config_builds:
  fixes GCP_ENVS :: "(string \<times> (string \<rightharpoonup> 'v)) list"
  shows
  "((\<forall>env_name entries. map_of GCP_ENVS env_name = Some entries \<longrightarrow>
        ''name'' \<notin> dom entries \<and> ''self'' \<notin> dom entries) \<longrightarrow>
     (\<exists>gcp_envs. get_environments_from_config GCP_ENVS = Inr gcp_envs
        \<and> dom gcp_envs = fst ` set GCP_ENVS
        \<and> (\<forall>env_name entries. map_of GCP_ENVS env_name = Some entries \<longrightarrow>
             (\<exists>env. gcp_envs env_name = Some env
                \<and> env ''name'' = Some (PyStr env_name)
                \<and> (\<forall>a v. entries a = Some v \<longrightarrow> env a = Some (Entry v))
                \<and> (\<forall>a. entries a = None \<longrightarrow> env a = GcpEnvironment_defaults env_name a)
                \<and> (''_all_projects_cache'' \<notin> dom entries
                     \<and> ''_single_project_cache'' \<notin> dom entries \<longrightarrow>
                   as_GcpEnvironment env =
                     Some \<lparr>GcpEnvironment.name = env_name,
                           organization = entries ''organization'',
                           all_projects_cache = [], single_project_cache = Map.empty,
                           service_account_project = entries ''service_account_project'',
                           service_account_path = entries ''service_account_path'',
                           extra = (\<lambda>a. if a \<in> set declared_attributes then None
                                         else entries a)\<rparr>)))))
   \<and> ((\<exists>env_name entries. map_of GCP_ENVS env_name = Some entries
          \<and> (''name'' \<in> dom entries \<or> ''self'' \<in> dom entries)) \<longrightarrow>
        (\<exists>message. get_environments_from_config GCP_ENVS = Inl (TypeError message)))
   \<and> get_environments_from_config ([] :: (string \<times> (string \<rightharpoonup> 'v)) list) = Inr Map.empty"
proof (intro conjI impI)
  assume ok: "\<forall>env_name entries. map_of GCP_ENVS env_name = Some entries \<longrightarrow>
        ''name'' \<notin> dom entries \<and> ''self'' \<notin> dom entries"
  then have built: "get_environments_from_config GCP_ENVS = Inr (configured GCP_ENVS)"
    by (rule get_environments_from_config_ok)
  have each: "\<exists>env. configured GCP_ENVS env_name = Some env
                \<and> env ''name'' = Some (PyStr env_name)
                \<and> (\<forall>a v. entries a = Some v \<longrightarrow> env a = Some (Entry v))
                \<and> (\<forall>a. entries a = None \<longrightarrow> env a = GcpEnvironment_defaults env_name a)
                \<and> (''_all_projects_cache'' \<notin> dom entries
                     \<and> ''_single_project_cache'' \<notin> dom entries \<longrightarrow>
                   as_GcpEnvironment env =
                     Some \<lparr>GcpEnvironment.name = env_name,
                           organization = entries ''organization'',
                           all_projects_cache = [], single_project_cache = Map.empty,
                           service_account_project = entries ''service_account_project'',
                           service_account_path = entries ''service_account_path'',
                           extra = (\<lambda>a. if a \<in> set declared_attributes then None
                                         else entries a)\<rparr>)"
    if bound: "map_of GCP_ENVS env_name = Some entries" for env_name entries
  proof -
    from ok bound have no_name: "''name'' \<notin> dom entries" and no_self: "''self'' \<notin> dom entries"
      by blast+
    define env where "env = GcpEnvironment_defaults env_name ++ (map_option Entry \<circ> entries)"
    have here: "configured GCP_ENVS env_name = Some env"
      by (simp add: configured_def bound env_def)
    have init: "GcpEnvironment_init env_name entries = Inr env"
      using no_name no_self by (simp add: GcpEnvironment_init_def env_def)
    from no_name have "entries ''name'' = None"
      by (simp add: dom_def)
    then have n: "env ''name'' = Some (PyStr env_name)"
      by (simp add: env_def update_lookup defaults_name)
    have set: "\<forall>a v. entries a = Some v \<longrightarrow> env a = Some (Entry v)"
      by (simp add: env_def update_lookup)
    have unset: "\<forall>a. entries a = None \<longrightarrow> env a = GcpEnvironment_defaults env_name a"
      by (simp add: env_def update_lookup)
    have typed: "as_GcpEnvironment env =
                     Some \<lparr>GcpEnvironment.name = env_name,
                           organization = entries ''organization'',
                           all_projects_cache = [], single_project_cache = Map.empty,
                           service_account_project = entries ''service_account_project'',
                           service_account_path = entries ''service_account_path'',
                           extra = (\<lambda>a. if a \<in> set declared_attributes then None
                                         else entries a)\<rparr>"
      if "''_all_projects_cache'' \<notin> dom entries \<and> ''_single_project_cache'' \<notin> dom entries"
      using init that by (intro as_GcpEnvironment_init) simp_all
    from here n set unset typed show ?thesis
      by blast
  qed
  show "\<exists>gcp_envs. get_environments_from_config GCP_ENVS = Inr gcp_envs
        \<and> dom gcp_envs = fst ` set GCP_ENVS
        \<and> (\<forall>env_name entries. map_of GCP_ENVS env_name = Some entries \<longrightarrow>
             (\<exists>env. gcp_envs env_name = Some env
                \<and> env ''name'' = Some (PyStr env_name)
                \<and> (\<forall>a v. entries a = Some v \<longrightarrow> env a = Some (Entry v))
                \<and> (\<forall>a. entries a = None \<longrightarrow> env a = GcpEnvironment_defaults env_name a)
                \<and> (''_all_projects_cache'' \<notin> dom entries
                     \<and> ''_single_project_cache'' \<notin> dom entries \<longrightarrow>
                   as_GcpEnvironment env =
                     Some \<lparr>GcpEnvironment.name = env_name,
                           organization = entries ''organization'',
                           all_projects_cache = [], single_project_cache = Map.empty,
                           service_account_project = entries ''service_account_project'',
                           service_account_path = entries ''service_account_path'',
                           extra = (\<lambda>a. if a \<in> set declared_attributes then None
                                         else entries a)\<rparr>)))"
  proof (rule exI [of _ "configured GCP_ENVS"], intro conjI)
    show "get_environments_from_config GCP_ENVS = Inr (configured GCP_ENVS)"
      by (rule built)
    show "dom (configured GCP_ENVS) = fst ` set GCP_ENVS"
      by (rule dom_configured)
    show "\<forall>env_name entries. map_of GCP_ENVS env_name = Some entries \<longrightarrow>
             (\<exists>env. configured GCP_ENVS env_name = Some env
                \<and> env ''name'' = Some (PyStr env_name)
                \<and> (\<forall>a v. entries a = Some v \<longrightarrow> env a = Some (Entry v))
                \<and> (\<forall>a. entries a = None \<longrightarrow> env a = GcpEnvironment_defaults env_name a)
                \<and> (''_all_projects_cache'' \<notin> dom entries
                     \<and> ''_single_project_cache'' \<notin> dom entries \<longrightarrow>
                   as_GcpEnvironment env =
                     Some \<lparr>GcpEnvironment.name = env_name,
                           organization = entries ''organization'',
                           all_projects_cache = [], single_project_cache = Map.empty,
                           service_account_project = entries ''service_account_project'',
                           service_account_path = entries ''service_account_path'',
                           extra = (\<lambda>a. if a \<in> set declared_attributes then None
                                         else entries a)\<rparr>))"
    proof (intro allI impI)
      fix env_name entries
      assume "map_of GCP_ENVS env_name = Some entries"
      then show "\<exists>env. configured GCP_ENVS env_name = Some env
                \<and> env ''name'' = Some (PyStr env_name)
                \<and> (\<forall>a v. entries a = Some v \<longrightarrow> env a = Some (Entry v))
                \<and> (\<forall>a. entries a = None \<longrightarrow> env a = GcpEnvironment_defaults env_name a)
                \<and> (''_all_projects_cache'' \<notin> dom entries
                     \<and> ''_single_project_cache'' \<notin> dom entries \<longrightarrow>
                   as_GcpEnvironment env =
                     Some \<lparr>GcpEnvironment.name = env_name,
                           organization = entries ''organization'',
                           all_projects_cache = [], single_project_cache = Map.empty,
                           service_account_project = entries ''service_account_project'',
                           service_account_path = entries ''service_account_path'',
                           extra = (\<lambda>a. if a \<in> set declared_attributes then None
                                         else entries a)\<rparr>)"
        by (rule each)
    qed
  qed
next
  assume "\<exists>env_name entries. map_of GCP_ENVS env_name = Some entries
          \<and> (''name'' \<in> dom entries \<or> ''self'' \<in> dom entries)"
  then obtain env_name entries where "map_of GCP_ENVS env_name = Some entries"
      and "''name'' \<in> dom entries \<or> ''self'' \<in> dom entries"
    by blast
  then show "\<exists>message. get_environments_from_config GCP_ENVS = Inl (TypeError message)"
    by (rule get_environments_from_config_type_error)
next
  show "get_environments_from_config ([] :: (string \<times> (string \<rightharpoonup> 'v)) list) = Inr Map.empty"
    by (simp add: get_environments_from_config_def)
qed

theorem get_environments_from_config_builds_witness:
  "(\<exists>gcp_envs.
      get_environments_from_config
        [(''prod'', [''organization'' \<mapsto> ''acme'', ''region'' \<mapsto> ''us'']),
         (''dev'', Map.empty)] = Inr gcp_envs
      \<and> dom gcp_envs = {''prod'', ''dev''}
      \<and> (\<exists>env. gcp_envs ''prod'' = Some env
            \<and> env ''name'' = Some (PyStr ''prod'')
            \<and> env ''organization'' = Some (Entry ''acme'')
            \<and> env ''region'' = Some (Entry ''us'')
            \<and> env ''service_account_path'' = Some PyNone
            \<and> map_option GcpEnvironment.name (as_GcpEnvironment env) = Some ''prod''
            \<and> map_option organization (as_GcpEnvironment env) = Some (Some ''acme'')
            \<and> map_option all_projects_cache (as_GcpEnvironment env) = Some []))
   \<and> (\<exists>message.
        get_environments_from_config [(''prod'', [''self'' \<mapsto> ''x''])] =
          Inl (TypeError message))"
proof -
  let ?entries = "[''organization'' \<mapsto> ''acme'', ''region'' \<mapsto> ''us'']"
  let ?cfg = "[(''prod'', ?entries), (''dev'', Map.empty)]"
  let ?bad = "[(''prod'', [''self'' \<mapsto> ''x''])]"
  have prod: "map_of ?cfg ''prod'' = Some ?entries"
    by simp
  have no_caches: "''_all_projects_cache'' \<notin> dom ?entries
      \<and> ''_single_project_cache'' \<notin> dom ?entries"
    by simp
  have bad: "\<exists>env_name entries. map_of ?bad env_name = Some entries
          \<and> (''name'' \<in> dom entries \<or> ''self'' \<in> dom entries)"
    by (intro exI [of _ "''prod''"] exI [of _ "[''self'' \<mapsto> ''x'']"]) simp
  note built = get_environments_from_config_builds [of ?cfg, THEN conjunct1, THEN mp, OF example_config_entries]
  note failed = get_environments_from_config_builds
                  [of ?bad, THEN conjunct2, THEN conjunct1, THEN mp, OF bad]
  from built obtain gcp_envs where
    result: "get_environments_from_config ?cfg = Inr gcp_envs"
    and keys: "dom gcp_envs = fst ` set ?cfg"
    and each: "\<forall>env_name entries. map_of ?cfg env_name = Some entries \<longrightarrow>
             (\<exists>env. gcp_envs env_name = Some env
                \<and> env ''name'' = Some (PyStr env_name)
                \<and> (\<forall>a v. entries a = Some v \<longrightarrow> env a = Some (Entry v))
                \<and> (\<forall>a. entries a = None \<longrightarrow> env a = GcpEnvironment_defaults env_name a)
                \<and> (''_all_projects_cache'' \<notin> dom entries
                     \<and> ''_single_project_cache'' \<notin> dom entries \<longrightarrow>
                   as_GcpEnvironment env =
                     Some \<lparr>GcpEnvironment.name = env_name,
                           organization = entries ''organization'',
                           all_projects_cache = [], single_project_cache = Map.empty,
                           service_account_project = entries ''service_account_project'',
                           service_account_path = entries ''service_account_path'',
                           extra = (\<lambda>a. if a \<in> set declared_attributes then None
                                         else entries a)\<rparr>))"
    by (elim exE conjE)
  note at_prod = each [THEN spec, THEN spec, THEN mp, OF prod]
  from at_prod obtain env where
    env: "gcp_envs ''prod'' = Some env"
    and n: "env ''name'' = Some (PyStr ''prod'')"
    and set: "\<forall>a v. ?entries a = Some v \<longrightarrow> env a = Some (Entry v)"
    and unset: "\<forall>a. ?entries a = None \<longrightarrow> env a = GcpEnvironment_defaults ''prod'' a"
    and typed: "''_all_projects_cache'' \<notin> dom ?entries
                     \<and> ''_single_project_cache'' \<notin> dom ?entries \<longrightarrow>
         as_GcpEnvironment env =
         Some \<lparr>GcpEnvironment.name = ''prod'',
               organization = ?entries ''organization'',
               all_projects_cache = [], single_project_cache = Map.empty,
               service_account_project = ?entries ''service_account_project'',
               service_account_path = ?entries ''service_account_path'',
               extra = (\<lambda>a. if a \<in> set declared_attributes then None else ?entries a)\<rparr>"
    by (elim exE conjE)
  note view = typed [THEN mp, OF no_caches]
  have org: "env ''organization'' = Some (Entry ''acme'')"
    by (rule set [THEN spec, THEN spec, THEN mp]) simp
  have region: "env ''region'' = Some (Entry ''us'')"
    by (rule set [THEN spec, THEN spec, THEN mp]) simp
  have "env ''service_account_path'' = GcpEnvironment_defaults ''prod'' ''service_account_path''"
    by (rule unset [THEN spec, THEN mp]) simp
  then have path: "env ''service_account_path'' = Some PyNone"
    by (simp only: defaults_optional)
  have v1: "map_option GcpEnvironment.name (as_GcpEnvironment env) = Some ''prod''"
    by (simp add: view)
  have v2: "map_option organization (as_GcpEnvironment env) = Some (Some ''acme'')"
    by (simp add: view)
  have v3: "map_option all_projects_cache (as_GcpEnvironment env) = Some []"
    by (simp add: view)
  have keys': "dom gcp_envs = {''prod'', ''dev''}"
    using keys by simp
  from env n org region path v1 v2 v3
  have "\<exists>env. gcp_envs ''prod'' = Some env
            \<and> env ''name'' = Some (PyStr ''prod'')
            \<and> env ''organization'' = Some (Entry ''acme'')
            \<and> env ''region'' = Some (Entry ''us'')
            \<and> env ''service_account_path'' = Some PyNone
            \<and> map_option GcpEnvironment.name (as_GcpEnvironment env) = Some ''prod''
            \<and> map_option organization (as_GcpEnvironment env) = Some (Some ''acme'')
            \<and> map_option all_projects_cache (as_GcpEnvironment env) = Some []"
    by (intro exI conjI)
  with result keys' have first: "\<exists>gcp_envs. get_environments_from_config ?cfg = Inr gcp_envs
      \<and> dom gcp_envs = {''prod'', ''dev''}
      \<and> (\<exists>env. gcp_envs ''prod'' = Some env
            \<and> env ''name'' = Some (PyStr ''prod'')
            \<and> env ''organization'' = Some (Entry ''acme'')
            \<and> env ''region'' = Some (Entry ''us'')
            \<and> env ''service_account_path'' = Some PyNone
            \<and> map_option GcpEnvironment.name (as_GcpEnvironment env) = Some ''prod''
            \<and> map_option organization (as_GcpEnvironment env) = Some (Some ''acme'')
            \<and> map_option all_projects_cache (as_GcpEnvironment env) = Some [])"
    by (intro exI [of _ gcp_envs] conjI)
  from first failed show ?thesis
    by (rule conjI)
qed

text \<open>
  Without the condition on the entries the statement does not hold: take a configuration
  whose entries for \<^verbatim>\<open>prod\<close> have the key \<^verbatim>\<open>name\<close>: the keyword argument
  \<^verbatim>\<open>name\<close> is then given twice and the call raises.
\<close>

theorem get_environments_from_config_name_entry:
  "get_environments_from_config [(''prod'', [''name'' \<mapsto> ''production''])] =
     Inl (TypeError ''got multiple values for keyword argument 'name' '')"
  by (simp add: get_environments_from_config_def GcpEnvironment_init_def)

section \<open>\<^verbatim>\<open>GcpResource.validate\<close>\<close>

text \<open>
  C7. \<^verbatim>\<open>GcpResource.validate()\<close> raises when the \<open>project\<close> attribute is
  \<^verbatim>\<open>None\<close>: the exception is a \<^verbatim>\<open>KeyError\<close> (the configuration error of the
  specification) whose message says that a project must be specified. For every other value
  of \<open>project\<close> the call returns nothing and leaves the resource as it was; in the failing
  case the resource is unchanged as well.
\<close>

theorem validate_project:
  "(project r = None \<longrightarrow>
      validate r =
        (Inl (KeyError ''A project must be specified when creating or referencing a GCP Resource''), r))
   \<and> (\<forall>v. project r = Some v \<longrightarrow> validate r = (Inr (), r))"
  by (simp add: validate_def)

theorem validate_project_witness:
  "validate \<lparr>project = None :: nat option, attributes = Map.empty\<rparr> =
     (Inl (KeyError ''A project must be specified when creating or referencing a GCP Resource''),
      \<lparr>project = None, attributes = Map.empty\<rparr>)
   \<and> validate \<lparr>project = Some (7 :: nat), attributes = Map.empty\<rparr> =
       (Inr (), \<lparr>project = Some 7, attributes = Map.empty\<rparr>)"
  using validate_project [of "\<lparr>project = None :: nat option, attributes = Map.empty\<rparr>"]
        validate_project [of "\<lparr>project = Some (7 :: nat), attributes = Map.empty\<rparr>"]
  by simp

end
